theory Spec2Isabelle
  imports Complex_Main "HOL-Library.AList"
begin

section \<open>Request values and the coercions the vote handler applies to them\<close>

text \<open>
  Both servers (\<^verbatim>\<open>src/unnamed/part_000\<close>, the one-shot variant, and
  \<^verbatim>\<open>src/unnamed/part_001\<close>, the rate-limited variant) read \<^verbatim>\<open>optionIndex\<close> from
  the JSON body without checking its type, so the handler sees any JSON value, or
  \<^verbatim>\<open>undefined\<close> when the field is missing.

  A number is the double \<^verbatim>\<open>JSON.parse\<close> produced, written as a rational; \<^verbatim>\<open>-0\<close> is
  \<open>0\<close>, which it equals in every use below, and a literal that overflows to an infinity
  behaves in the handler as any number above the length or below zero does.

  An array or an object is used by the handler only through its conversion to a
  primitive, in the comparison and as a property key. For a value that came out of
  \<^verbatim>\<open>JSON.parse\<close> both conversions end in \<^verbatim>\<open>toString\<close>: \<open>JComposite (Some s)\<close> is a
  value whose \<^verbatim>\<open>toString\<close> gives the string \<open>s\<close> (an array gives its elements joined by
  commas, \<^verbatim>\<open>[0]\<close> gives \<^verbatim>\<open>"0"\<close>; a plain object gives \<^verbatim>\<open>"[object Object]"\<close>), and
  \<open>JComposite None\<close> is a value whose conversion throws a \<^verbatim>\<open>TypeError\<close> (an object with
  an own \<^verbatim>\<open>toString\<close> entry, such as \<^verbatim>\<open>{"toString": 1}\<close>, or an array that holds one).
  Strings are lists of 8-bit characters.
\<close>

datatype jsval =
    JUndefined
  | JNull
  | JBool bool
  | JNum rat
  | JStr string
  | JComposite "string option"

text \<open>The result of ECMAScript's \<^verbatim>\<open>ToNumber\<close>.\<close>

datatype jsnum = NaN | Fin rat | PosInf | NegInf

definition negate :: "jsnum \<Rightarrow> jsnum" where
  "negate x = (case x of NaN \<Rightarrow> NaN | Fin r \<Rightarrow> Fin (- r) | PosInf \<Rightarrow> NegInf | NegInf \<Rightarrow> PosInf)"

subsection \<open>Rounding to a double\<close>

text \<open>The number of binary digits of a positive integer.\<close>

function bit_length :: "int \<Rightarrow> nat" where
  "bit_length k = (if k \<le> 0 then 0 else Suc (bit_length (k div 2)))"
  by pat_completeness auto
termination
  by (relation "measure nat") auto

declare bit_length.simps [simp del]

definition pow2 :: "int \<Rightarrow> rat" where
  "pow2 e = (if 0 \<le> e then 2 ^ nat e else 1 / 2 ^ nat (- e))"

text \<open>For \<open>a > 0\<close>, the integer \<open>e\<close> with \<open>2^e \<le> a < 2^(e+1)\<close>.\<close>

definition ilog2 :: "rat \<Rightarrow> int" where
  "ilog2 a =
     (if 1 \<le> a then int (bit_length \<lfloor>a\<rfloor>) - 1 else - int (bit_length (\<lceil>1 / a\<rceil> - 1)))"

text \<open>The nearest integer, a tie going to the even one.\<close>

definition round_half_even :: "rat \<Rightarrow> int" where
  "round_half_even y =
     (let f = \<lfloor>y\<rfloor>; r = y - of_int f
      in if r < 1 / 2 then f else if 1 / 2 < r then f + 1 else if even f then f else f + 1)"

text \<open>
  The Number value for a mathematical value \<open>x\<close>: the nearest IEEE 754 binary64 value,
  ties to even. The doubles next to \<open>x\<close> are the multiples of \<open>2^(e - 52)\<close>, where
  \<open>e\<close> is the binary exponent of \<open>x\<close>, and not below \<open>-1022\<close> (the subnormal range has
  the spacing \<open>2^(-1074)\<close>); what rounds to \<open>2^1024\<close> or beyond is an infinity.
  A negative value that rounds to zero is \<^verbatim>\<open>-0\<close>, written \<open>Fin 0\<close>.
\<close>

definition to_double :: "rat \<Rightarrow> jsnum" where
  "to_double x =
     (if x = 0 then Fin 0
      else
        let a = \<bar>x\<bar>;
            q = pow2 (max (ilog2 a) (- 1022) - 52);
            d = of_int (round_half_even (a / q)) * q
        in if pow2 1024 \<le> d then (if x < 0 then NegInf else PosInf)
           else Fin (if x < 0 then - d else d))"

subsection \<open>\<^verbatim>\<open>StringToNumber\<close>\<close>

text \<open>
  \<^verbatim>\<open>StrWhiteSpaceChar\<close> (also what \<^verbatim>\<open>String.prototype.trim\<close> and the schema's
  \<^verbatim>\<open>trim: true\<close> strip), restricted to the characters below 256: TAB, LF, VT, FF, CR,
  SP, NBSP.
\<close>

definition is_ws :: "char \<Rightarrow> bool" where
  "is_ws c = (c \<in> set [CHR 0x09, CHR 0x0A, CHR 0x0B, CHR 0x0C, CHR 0x0D, CHR 0x20, CHR 0xA0])"

definition trim :: "string \<Rightarrow> string" where
  "trim s = rev (dropWhile is_ws (rev (dropWhile is_ws s)))"

definition is_digit :: "char \<Rightarrow> bool" where
  "is_digit c = (c \<in> set ''0123456789'')"

fun index_of :: "char \<Rightarrow> string \<Rightarrow> int option" where
  "index_of c [] = None"
| "index_of c (d # ds) = (if c = d then Some 0 else map_option (\<lambda>i. i + 1) (index_of c ds))"

definition digit_in :: "int \<Rightarrow> char \<Rightarrow> int option" where
  "digit_in base c =
     (case (case index_of c ''0123456789abcdef'' of
              Some d \<Rightarrow> Some d
            | None \<Rightarrow> map_option (\<lambda>d. d + 10) (index_of c ''ABCDEF'')) of
        None \<Rightarrow> None
      | Some d \<Rightarrow> if d < base then Some d else None)"

text \<open>The value of a non-empty string of digits of the base; \<open>None\<close> for any other string.\<close>

definition digits_value :: "int \<Rightarrow> string \<Rightarrow> int option" where
  "digits_value base s =
     (if s \<noteq> [] \<and> list_all (\<lambda>c. digit_in base c \<noteq> None) s
      then Some (foldl (\<lambda>a c. a * base + the (digit_in base c)) 0 s)
      else None)"

definition pow10 :: "int \<Rightarrow> rat" where
  "pow10 e = (if 0 \<le> e then 10 ^ nat e else 1 / 10 ^ nat (- e))"

text \<open>
  \<^verbatim>\<open>ExponentPart\<close>, optional: \<open>Some 0\<close> when nothing is left, the signed exponent
  after \<^verbatim>\<open>e\<close> or \<^verbatim>\<open>E\<close>, \<open>None\<close> when the rest is not an exponent part.
\<close>

definition exponent_part :: "string \<Rightarrow> int option" where
  "exponent_part s =
     (case s of
        [] \<Rightarrow> Some 0
      | c # t \<Rightarrow>
          if c = CHR ''e'' \<or> c = CHR ''E'' then
            (case t of
               [] \<Rightarrow> None
             | d # u \<Rightarrow>
                 if d = CHR ''+'' then digits_value 10 u
                 else if d = CHR ''-'' then map_option uminus (digits_value 10 u)
                 else digits_value 10 t)
          else None)"

text \<open>
  \<^verbatim>\<open>StrUnsignedDecimalLiteral\<close>: \<^verbatim>\<open>Infinity\<close>, or digits with an optional fraction
  and exponent, at least one digit before or after the point. Its Number value is the
  double nearest to the decimal value, as Node computes it.
\<close>

definition unsigned_decimal :: "string \<Rightarrow> jsnum" where
  "unsigned_decimal s =
     (if s = ''Infinity'' then PosInf
      else
        let ip = takeWhile is_digit s;
            r = dropWhile is_digit s;
            dot = (case r of [] \<Rightarrow> False | c # _ \<Rightarrow> c = CHR ''.'');
            fp = (if dot then takeWhile is_digit (tl r) else []);
            r' = (if dot then dropWhile is_digit (tl r) else r)
        in if ip = [] \<and> fp = [] then NaN
           else
             (case exponent_part r' of
                None \<Rightarrow> NaN
              | Some e \<Rightarrow>
                  (case digits_value 10 (ip @ fp) of
                     None \<Rightarrow> NaN
                   | Some m \<Rightarrow> to_double (of_int m * pow10 (e - int (length fp))))))"

text \<open>\<^verbatim>\<open>StrDecimalLiteral\<close>: an optional sign before the unsigned literal.\<close>

definition str_decimal :: "string \<Rightarrow> jsnum" where
  "str_decimal s =
     (case s of
        [] \<Rightarrow> NaN
      | c # t \<Rightarrow>
          if c = CHR ''+'' then unsigned_decimal t
          else if c = CHR ''-'' then negate (unsigned_decimal t)
          else unsigned_decimal s)"

text \<open>
  \<^verbatim>\<open>NonDecimalIntegerLiteral\<close>: \<^verbatim>\<open>0x\<close>, \<^verbatim>\<open>0o\<close> or \<^verbatim>\<open>0b\<close> (either case) and digits of
  that base, unsigned. \<open>None\<close> when the string has no such prefix.
\<close>

definition non_decimal :: "string \<Rightarrow> jsnum option" where
  "non_decimal s =
     (case s of
        c0 # c1 # t \<Rightarrow>
          if c0 = CHR ''0'' \<and> c1 \<in> set ''xXoObB'' then
            Some (case digits_value
                         (if c1 \<in> set ''xX'' then 16 else if c1 \<in> set ''oO'' then 8 else 2) t of
                    None \<Rightarrow> NaN
                  | Some n \<Rightarrow> to_double (of_int n))
          else None
      | _ \<Rightarrow> None)"

text \<open>\<^verbatim>\<open>StringToNumber\<close>: the empty or all-blank string is \<open>0\<close>, a string that is not a
  \<^verbatim>\<open>StringNumericLiteral\<close> is \<open>NaN\<close>.\<close>

definition string_to_number :: "string \<Rightarrow> jsnum" where
  "string_to_number s =
     (let t = trim s
      in if t = [] then Fin 0
         else (case non_decimal t of Some v \<Rightarrow> v | None \<Rightarrow> str_decimal t))"

subsection \<open>The range check\<close>

text \<open>\<^verbatim>\<open>ToNumber\<close> of the request value; \<open>None\<close> when the conversion throws.\<close>

fun to_number :: "jsval \<Rightarrow> jsnum option" where
  "to_number JUndefined = Some NaN"
| "to_number JNull = Some (Fin 0)"
| "to_number (JBool b) = Some (Fin (if b then 1 else 0))"
| "to_number (JNum r) = Some (Fin r)"
| "to_number (JStr s) = Some (string_to_number s)"
| "to_number (JComposite (Some s)) = Some (string_to_number s)"
| "to_number (JComposite None) = None"

text \<open>\<^verbatim>\<open>x < 0\<close> and \<^verbatim>\<open>x >= n\<close> on numbers; a comparison with \<open>NaN\<close> is false.\<close>

definition js_lt_zero :: "jsnum \<Rightarrow> bool" where
  "js_lt_zero x = (case x of NaN \<Rightarrow> False | Fin r \<Rightarrow> r < 0 | PosInf \<Rightarrow> False | NegInf \<Rightarrow> True)"

definition js_ge_length :: "jsnum \<Rightarrow> nat \<Rightarrow> bool" where
  "js_ge_length x n =
     (case x of NaN \<Rightarrow> False | Fin r \<Rightarrow> of_nat n \<le> r | PosInf \<Rightarrow> True | NegInf \<Rightarrow> False)"

text \<open>
  \<^verbatim>\<open>optionIndex < 0 || optionIndex >= poll.options.length\<close> for \<open>n\<close> options:
  \<open>Some True\<close> when the index is refused, \<open>Some False\<close> when it passes, \<open>None\<close> when
  converting the left operand throws.
\<close>

definition range_check :: "jsval \<Rightarrow> nat \<Rightarrow> bool option" where
  "range_check v n =
     (case to_number v of
        None \<Rightarrow> None
      | Some x \<Rightarrow> Some (js_lt_zero x \<or> js_ge_length x n))"

section \<open>Reading \<^verbatim>\<open>poll.options[optionIndex]\<close>\<close>

text \<open>
  A string is an array index when it is the canonical decimal form of an integer below
  \<open>2^32 - 1\<close>: digits only, no leading zero except for \<^verbatim>\<open>"0"\<close> itself.
\<close>

definition array_index :: "string \<Rightarrow> int option" where
  "array_index s =
     (case digits_value 10 s of
        None \<Rightarrow> None
      | Some i \<Rightarrow> if (s = ''0'' \<or> take 1 s \<noteq> ''0'') \<and> i < 2 ^ 32 - 1 then Some i else None)"

text \<open>
  What the property read yields: an option subdocument (by position), some other value
  of the array object that is neither \<^verbatim>\<open>undefined\<close> nor \<^verbatim>\<open>null\<close>, or \<^verbatim>\<open>undefined\<close>.
\<close>

datatype slot = Element nat | Other | Missing

text \<open>
  The read by property key on an array of \<open>n\<close> options. \<^verbatim>\<open>length\<close> is a property of
  every array (a number). The other property names the array object answers to (the
  methods it inherits, such as \<^verbatim>\<open>push\<close>) belong to the runtime and to Mongoose, not to
  this repository: \<open>props k\<close> says that \<open>k\<close> names such a property with a value other
  than \<^verbatim>\<open>undefined\<close> and \<^verbatim>\<open>null\<close>.
\<close>

definition get_by_key :: "(string \<Rightarrow> bool) \<Rightarrow> nat \<Rightarrow> string \<Rightarrow> slot" where
  "get_by_key props n k =
     (case array_index k of
        Some i \<Rightarrow> if i < int n then Element (nat i) else Missing
      | None \<Rightarrow> if k = ''length'' \<or> props k then Other else Missing)"

text \<open>
  The property key is \<^verbatim>\<open>ToString(optionIndex)\<close>. For a number that is a natural number
  the key is its decimal form, an array index; the key of any other number is a numeric
  string that is no array index and names no property of the array. A value whose
  conversion throws never gets here (the range check threw before); the read would
  throw as well, which \<open>Missing\<close> stands for.
\<close>

fun options_get :: "(string \<Rightarrow> bool) \<Rightarrow> nat \<Rightarrow> jsval \<Rightarrow> slot" where
  "options_get props n (JNum r) =
     (if 0 \<le> r \<and> of_int \<lfloor>r\<rfloor> = r \<and> nat \<lfloor>r\<rfloor> < n then Element (nat \<lfloor>r\<rfloor>) else Missing)"
| "options_get props n (JStr s) = get_by_key props n s"
| "options_get props n JUndefined = get_by_key props n ''undefined''"
| "options_get props n JNull = get_by_key props n ''null''"
| "options_get props n (JBool b) = get_by_key props n (if b then ''true'' else ''false'')"
| "options_get props n (JComposite (Some s)) = get_by_key props n s"
| "options_get props n (JComposite None) = Missing"

section \<open>The data model (\<^verbatim>\<open>src/models/Poll.js\<close>)\<close>

text \<open>
  \<^verbatim>\<open>optionSchema\<close> and \<^verbatim>\<open>pollSchema\<close>. Vote counts are natural numbers: a JavaScript
  number counts exactly up to \<open>2^53\<close>, which no poll reaches. The database is the
  collection of polls, keyed by the unique \<^verbatim>\<open>pollId\<close>.
\<close>

record poll_option =
  opt_text :: string
  votes :: nat

record poll =
  pollId :: string
  question :: string
  options :: "poll_option list"
  votedIPs :: "string list"
  totalVotes :: nat
  createdAt :: int

type_synonym db = "string \<rightharpoonup> poll"

text \<open>A \<^verbatim>\<open>voteUpdate\<close> event sent to a room: the room, the options and the total.\<close>

type_synonym emit = "string \<times> poll_option list \<times> nat"

text \<open>
  The HTTP responses of the create and vote endpoints. \<open>VoteRecorded\<close> is the body of
  the one-shot server (options and total), \<open>VoteRecordedPoll\<close> the body of the
  rate-limited server (it adds the poll id and the question); \<open>RateLimited\<close> carries
  \<^verbatim>\<open>remainingTime\<close>.
\<close>

datatype reply =
    Created string
  | BadRequest
  | NotFound
  | InvalidOption
  | AlreadyVoted
  | RateLimited int
  | ServerError
  | VoteRecorded "poll_option list" nat
  | VoteRecordedPoll string string "poll_option list" nat

fun status :: "reply \<Rightarrow> nat" where
  "status (Created _) = 201"
| "status BadRequest = 400"
| "status NotFound = 404"
| "status InvalidOption = 400"
| "status AlreadyVoted = 403"
| "status (RateLimited _) = 429"
| "status ServerError = 500"
| "status (VoteRecorded _ _) = 200"
| "status (VoteRecordedPoll _ _ _ _) = 200"

section \<open>Creating a poll (\<^verbatim>\<open>POST /api/polls\<close>, the same in both servers)\<close>

text \<open>
  \<open>pid\<close> is the id \<^verbatim>\<open>nanoid(10)\<close> returns, \<open>now\<close> the clock (the default of
  \<^verbatim>\<open>createdAt\<close>), \<open>save_ok\<close> whether the storage layer carries out the write. The body
  holds a string and a list of strings; an empty question is falsy. \<^verbatim>\<open>poll.save()\<close>
  rejects, and the handler answers 500, when the storage fails, when the unique index on
  \<^verbatim>\<open>pollId\<close> already holds the id, or when a \<^verbatim>\<open>required\<close> string is empty after the
  schema trimmed it.
\<close>

definition create_poll :: "db \<Rightarrow> string \<Rightarrow> string \<Rightarrow> string list \<Rightarrow> int \<Rightarrow> bool \<Rightarrow> reply \<times> db" where
  "create_poll d pid q opts now save_ok =
     (if q = [] \<or> length opts < 2 then (BadRequest, d)
      else
        let p = \<lparr>pollId = pid, question = trim q,
                 options = map (\<lambda>opt. \<lparr>opt_text = trim opt, votes = 0\<rparr>) opts,
                 votedIPs = [], totalVotes = 0, createdAt = now\<rparr>
        in if save_ok \<and> d pid = None \<and> question p \<noteq> []
                \<and> list_all (\<lambda>opt. opt_text opt \<noteq> []) (options p)
           then (Created pid, d(pid \<mapsto> p))
           else (ServerError, d))"

section \<open>Voting, one-shot server (\<^verbatim>\<open>part_000\<close>, lines 130 to 180)\<close>

text \<open>
  \<^verbatim>\<open>poll.options[optionIndex].votes += 1\<close> on the loaded document. On an option it adds
  one to that option's count. On \<^verbatim>\<open>undefined\<close> (also what a position beyond the last
  option holds) it throws a \<^verbatim>\<open>TypeError\<close> (\<open>None\<close>).
  On any other value the statement changes no option: the files are CommonJS modules
  without \<^verbatim>\<open>"use strict"\<close>, where an assignment to a property of a primitive (such as
  the number \<^verbatim>\<open>poll.options.length\<close>) is silently dropped, and an assignment to a
  property of a function sets it on the function.
\<close>

definition increment_votes :: "slot \<Rightarrow> poll \<Rightarrow> poll option" where
  "increment_votes sl p =
     (case sl of
        Element i \<Rightarrow>
          if i < length (options p)
          then Some (p\<lparr>options :=
                        (options p)[i := (options p ! i)\<lparr>votes := votes (options p ! i) + 1\<rparr>]\<rparr>)
          else None
      | Other \<Rightarrow> Some p
      | Missing \<Rightarrow> None)"

text \<open>
  The handler, in the order of the source: load the poll (404), range check (400, or an
  exception when the index cannot be converted), \<^verbatim>\<open>votedIPs.includes\<close> (403), the three updates of the document, \<^verbatim>\<open>poll.save()\<close>, the
  broadcast, the response. An exception (the \<^verbatim>\<open>TypeError\<close> above, a rejected save) is
  caught and answered with 500; the stored poll changes only when the save succeeds.
  \<open>clientIP\<close> is the string \<^verbatim>\<open>getClientIP\<close> returns for the request. The result is the
  response, the database and the events emitted.
\<close>

definition vote_oneshot ::
  "(string \<Rightarrow> bool) \<Rightarrow> db \<Rightarrow> string \<Rightarrow> jsval \<Rightarrow> string \<Rightarrow> bool \<Rightarrow> reply \<times> db \<times> emit list" where
  "vote_oneshot props d pid optionIndex clientIP save_ok =
     (case d pid of
        None \<Rightarrow> (NotFound, d, [])
      | Some p \<Rightarrow>
          (case range_check optionIndex (length (options p)) of
             None \<Rightarrow> (ServerError, d, [])
           | Some True \<Rightarrow> (InvalidOption, d, [])
           | Some False \<Rightarrow>
               if clientIP \<in> set (votedIPs p) then (AlreadyVoted, d, [])
               else
                 (case increment_votes (options_get props (length (options p)) optionIndex) p of
                    None \<Rightarrow> (ServerError, d, [])
                  | Some p1 \<Rightarrow>
                      let p2 = p1\<lparr>totalVotes := totalVotes p1 + 1\<rparr>;
                          p3 = p2\<lparr>votedIPs := votedIPs p2 @ [clientIP]\<rparr>
                      in if save_ok
                         then (VoteRecorded (options p3) (totalVotes p3), d(pid \<mapsto> p3),
                               [(pid, options p3, totalVotes p3)])
                         else (ServerError, d, []))))"

section \<open>Voting, rate-limited server (\<^verbatim>\<open>part_001\<close>)\<close>

text \<open>
  The process state next to the database: \<^verbatim>\<open>voteTimestamps\<close>, a \<^verbatim>\<open>Map\<close> from poll
  id to a \<^verbatim>\<open>Map\<close> from address to the time of the last vote. A JavaScript \<^verbatim>\<open>Map\<close>
  keeps its keys in insertion order and \<^verbatim>\<open>set\<close> on a present key replaces the value
  in place, which is \<open>AList.update\<close> on an association list. Times are what
  \<^verbatim>\<open>Date.now()\<close> returns: integers, in milliseconds.
\<close>

type_synonym timestamps = "(string \<times> (string \<times> int) list) list"

record server =
  polls :: db
  voteTimestamps :: timestamps

definition RATE_LIMIT_WINDOW :: int where
  "RATE_LIMIT_WINDOW = 60 * 1000"

text \<open>
  The sweep that \<^verbatim>\<open>setInterval\<close> runs every five minutes (lines 66 to 78), at clock
  \<open>now\<close>: it deletes every address whose timestamp is more than two windows old, then
  every poll id whose map is empty.
\<close>

definition cleanup :: "int \<Rightarrow> timestamps \<Rightarrow> timestamps" where
  "cleanup now ts =
     filter (\<lambda>(pid, ipMap). ipMap \<noteq> [])
       (map (\<lambda>(pid, ipMap).
               (pid, filter (\<lambda>(ip, timestamp). \<not> now - timestamp > RATE_LIMIT_WINDOW * 2) ipMap))
          ts)"

text \<open>
  Lines 193 to 202: \<open>Some remainingTime\<close> when the vote is refused, \<open>None\<close> when it
  passes. \<^verbatim>\<open>lastVoteTime && ...\<close> is falsy when the address has no entry, and also
  when the entry is the number \<open>0\<close>.
\<close>

definition rate_limit :: "(string \<times> int) list \<Rightarrow> string \<Rightarrow> int \<Rightarrow> int option" where
  "rate_limit pollVotes clientIP now =
     (case map_of pollVotes clientIP of
        None \<Rightarrow> None
      | Some lastVoteTime \<Rightarrow>
          if lastVoteTime \<noteq> 0 \<and> now - lastVoteTime < RATE_LIMIT_WINDOW
          then Some \<lceil>(of_int (RATE_LIMIT_WINDOW - (now - lastVoteTime)) :: rat) / 1000\<rceil>
          else None)"

text \<open>Lines 188 to 192: the map of the poll, created empty when the poll has none.\<close>

definition ensure_poll :: "timestamps \<Rightarrow> string \<Rightarrow> timestamps" where
  "ensure_poll ts pid = (if map_of ts pid = None then AList.update pid [] ts else ts)"

definition poll_votes :: "timestamps \<Rightarrow> string \<Rightarrow> (string \<times> int) list" where
  "poll_votes ts pid = (case map_of ts pid of None \<Rightarrow> [] | Some ipMap \<Rightarrow> ipMap)"

text \<open>
  The handler (lines 168 to 233), in the order of the source: load the poll (404),
  range check (400, or an exception when the index cannot be converted), the rate-limit
  check (429), \<^verbatim>\<open>pollVotes.set(clientIP, now)\<close>, the
  two updates of the document, \<^verbatim>\<open>poll.save()\<close>, the broadcast, the response. The
  timestamp is written before the statements that can throw, so it stays when the
  handler answers 500.
\<close>

definition vote_ratelimited ::
  "(string \<Rightarrow> bool) \<Rightarrow> server \<Rightarrow> string \<Rightarrow> jsval \<Rightarrow> string \<Rightarrow> int \<Rightarrow> bool
     \<Rightarrow> reply \<times> server \<times> emit list" where
  "vote_ratelimited props s pid optionIndex clientIP now save_ok =
     (case polls s pid of
        None \<Rightarrow> (NotFound, s, [])
      | Some p \<Rightarrow>
          (case range_check optionIndex (length (options p)) of
             None \<Rightarrow> (ServerError, s, [])
           | Some True \<Rightarrow> (InvalidOption, s, [])
           | Some False \<Rightarrow>
               let ts1 = ensure_poll (voteTimestamps s) pid;
                   pollVotes = poll_votes ts1 pid
               in (case rate_limit pollVotes clientIP now of
                     Some remainingTime \<Rightarrow>
                       (RateLimited remainingTime, s\<lparr>voteTimestamps := ts1\<rparr>, [])
                   | None \<Rightarrow>
                       let s1 = s\<lparr>voteTimestamps :=
                                   AList.update pid (AList.update clientIP now pollVotes) ts1\<rparr>
                       in (case increment_votes
                                  (options_get props (length (options p)) optionIndex) p of
                             None \<Rightarrow> (ServerError, s1, [])
                           | Some p1 \<Rightarrow>
                               let p2 = p1\<lparr>totalVotes := totalVotes p1 + 1\<rparr>
                               in if save_ok
                                  then (VoteRecordedPoll (pollId p2) (question p2) (options p2)
                                          (totalVotes p2),
                                        s1\<lparr>polls := (polls s1)(pid \<mapsto> p2)\<rparr>,
                                        [(pid, options p2, totalVotes p2)])
                                  else (ServerError, s1, [])))))"

section \<open>Sequences of requests\<close>

text \<open>
  A request to the one-shot server with everything the handler reads: the body, the
  address, and what the environment answers (the generated id, the clock, whether the
  save succeeds).
\<close>

datatype request =
    CreatePoll string string "string list" int bool
  | Vote string jsval string bool

fun handle :: "(string \<Rightarrow> bool) \<Rightarrow> db \<Rightarrow> request \<Rightarrow> db" where
  "handle props d (CreatePoll pid q opts now save_ok) = snd (create_poll d pid q opts now save_ok)"
| "handle props d (Vote pid optionIndex clientIP save_ok) =
     fst (snd (vote_oneshot props d pid optionIndex clientIP save_ok))"

definition run :: "(string \<Rightarrow> bool) \<Rightarrow> db \<Rightarrow> request list \<Rightarrow> db" where
  "run props d reqs = foldl (handle props) d reqs"

text \<open>The same for the rate-limited server; a vote also reads the clock.\<close>

datatype request_rl =
    CreatePollRL string string "string list" int bool
  | VoteRL string jsval string int bool

fun handle_rl :: "(string \<Rightarrow> bool) \<Rightarrow> server \<Rightarrow> request_rl \<Rightarrow> server" where
  "handle_rl props s (CreatePollRL pid q opts now save_ok) =
     s\<lparr>polls := snd (create_poll (polls s) pid q opts now save_ok)\<rparr>"
| "handle_rl props s (VoteRL pid optionIndex clientIP now save_ok) =
     fst (snd (vote_ratelimited props s pid optionIndex clientIP now save_ok))"

definition run_rl :: "(string \<Rightarrow> bool) \<Rightarrow> server \<Rightarrow> request_rl list \<Rightarrow> server" where
  "run_rl props s reqs = foldl (handle_rl props) s reqs"

text \<open>Requests whose vote carries a number as \<^verbatim>\<open>optionIndex\<close> (creations included).\<close>

fun numeric :: "request \<Rightarrow> bool" where
  "numeric (CreatePoll pid q opts now save_ok) = True"
| "numeric (Vote pid optionIndex clientIP save_ok) =
     (case optionIndex of JNum r \<Rightarrow> True | _ \<Rightarrow> False)"

fun numeric_rl :: "request_rl \<Rightarrow> bool" where
  "numeric_rl (CreatePollRL pid q opts now save_ok) = True"
| "numeric_rl (VoteRL pid optionIndex clientIP now save_ok) =
     (case optionIndex of JNum r \<Rightarrow> True | _ \<Rightarrow> False)"

text \<open>Requests to the rate-limited server whose vote reads a clock other than \<open>0\<close>.\<close>

fun clock_nonzero :: "request_rl \<Rightarrow> bool" where
  "clock_nonzero (CreatePollRL pid q opts now save_ok) = True"
| "clock_nonzero (VoteRL pid optionIndex clientIP now save_ok) = (now \<noteq> 0)"

text \<open>The sum of the option counts of a poll.\<close>

definition option_sum :: "poll \<Rightarrow> nat" where
  "option_sum p = sum_list (map votes (options p))"

section \<open>The abuse check as one function, and well-formed timestamp maps\<close>

text \<open>
  What the rate-limited handler decides at lines 188 to 202 for a poll id, an address
  and a clock value: \<open>Some remainingTime\<close> is the 429 answer, \<open>None\<close> lets the vote
  pass. \<open>vote_ratelimited\<close> computes exactly this term.
\<close>

definition check :: "timestamps \<Rightarrow> string \<Rightarrow> string \<Rightarrow> int \<Rightarrow> int option" where
  "check ts pid clientIP now = rate_limit (poll_votes (ensure_poll ts pid) pid) clientIP now"

text \<open>
  A \<^verbatim>\<open>Map\<close> holds a key once. The association lists that stand for the two levels of
  \<^verbatim>\<open>voteTimestamps\<close> are well formed when no key occurs twice.
\<close>

definition well_formed :: "timestamps \<Rightarrow> bool" where
  "well_formed ts =
     (distinct (map fst ts) \<and> list_all (\<lambda>(pid, ipMap). distinct (map fst ipMap)) ts)"

text \<open>No stored timestamp is \<open>0\<close>.\<close>

definition timestamps_nonzero :: "timestamps \<Rightarrow> bool" where
  "timestamps_nonzero ts =
     list_all (\<lambda>(pid, ipMap). list_all (\<lambda>(ip, timestamp). timestamp \<noteq> 0) ipMap) ts"

section \<open>Example states\<close>

text \<open>
  The poll that \<^verbatim>\<open>POST /api/polls\<close> stores for the question \<^verbatim>\<open>Q\<close> with the options
  \<^verbatim>\<open>A\<close> and \<^verbatim>\<open>B\<close> under the id \<^verbatim>\<open>p\<close>, the database that holds it, and the state of
  the rate-limited server with that database and no timestamps. \<open>poll_A1\<close> is the poll
  after the address \<^verbatim>\<open>x\<close> voted for option 0 on the one-shot server.
\<close>

definition poll_AB :: poll where
  "poll_AB = \<lparr>pollId = ''p'', question = ''Q'',
     options = [\<lparr>opt_text = ''A'', votes = 0\<rparr>, \<lparr>opt_text = ''B'', votes = 0\<rparr>],
     votedIPs = [], totalVotes = 0, createdAt = 0\<rparr>"

definition db_AB :: db where
  "db_AB = [''p'' \<mapsto> poll_AB]"

definition server_AB :: server where
  "server_AB = \<lparr>polls = db_AB, voteTimestamps = []\<rparr>"

definition poll_A1 :: poll where
  "poll_A1 = \<lparr>pollId = ''p'', question = ''Q'',
     options = [\<lparr>opt_text = ''A'', votes = 1\<rparr>, \<lparr>opt_text = ''B'', votes = 0\<rparr>],
     votedIPs = [''x''], totalVotes = 1, createdAt = 0\<rparr>"

definition db_A1 :: db where
  "db_A1 = [''p'' \<mapsto> poll_A1]"

text \<open>
  The state of the rate-limited server after the address \<^verbatim>\<open>x\<close> voted for option 0 (the
  rate-limited server never writes \<^verbatim>\<open>votedIPs\<close>), with the timestamp \<open>t\<close> stored for
  the address.
\<close>

definition server_A1 :: "int \<Rightarrow> server" where
  "server_A1 t = \<lparr>polls = [''p'' \<mapsto> poll_A1\<lparr>votedIPs := []\<rparr>],
                  voteTimestamps = [(''p'', [(''x'', t)])]\<rparr>"

text \<open>No property names beyond \<^verbatim>\<open>length\<close>.\<close>

definition no_props :: "string \<Rightarrow> bool" where
  "no_props k = False"

section \<open>Evaluation and helper lemmas\<close>

lemmas coercion_defs =
  range_check_def js_lt_zero_def js_ge_length_def string_to_number_def trim_def is_ws_def
  non_decimal_def
  str_decimal_def unsigned_decimal_def is_digit_def exponent_part_def digits_value_def
  digit_in_def pow10_def negate_def get_by_key_def array_index_def no_props_def

lemmas handler_defs =
  vote_oneshot_def vote_ratelimited_def create_poll_def increment_votes_def rate_limit_def
  ensure_poll_def poll_votes_def RATE_LIMIT_WINDOW_def run_def run_rl_def option_sum_def
  check_def Let_def

lemmas example_defs =
  poll_AB_def db_AB_def server_AB_def poll_A1_def db_A1_def server_A1_def

lemma create_poll_AB:
  "create_poll Map.empty ''p'' ''Q'' [''A'', ''B''] 0 True = (Created ''p'', db_AB)"
  by (simp add: handler_defs coercion_defs example_defs)

lemma ceiling_seconds: "\<lceil>(of_int x :: rat) / 1000\<rceil> = - ((- x) div 1000)"
  using ceiling_divide_eq_div[of x 1000, where ?'a = rat] by simp

lemma number_out_of_range:
  "i < 0 \<or> int n \<le> i \<Longrightarrow> range_check (JNum (of_int i)) n = Some True"
  by (auto simp: range_check_def js_lt_zero_def js_ge_length_def)

lemma ensure_poll_lookup: "poll_votes (ensure_poll ts pid) pid = poll_votes ts pid"
  by (simp add: ensure_poll_def poll_votes_def update_conv' split: option.splits)

lemma rate_limit_empty: "rate_limit [] ip now = None"
  by (simp add: rate_limit_def)

lemma rejected_has_map:
  "rate_limit (poll_votes (ensure_poll ts pid) pid) ip now = Some r \<Longrightarrow> ensure_poll ts pid = ts"
  by (cases "map_of ts pid")
     (auto simp: poll_votes_def rate_limit_empty ensure_poll_def update_conv')

lemma update_entries: "set (AList.update k v al) \<subseteq> insert (k, v) (set al)"
  by (induction al) auto

lemma list_all_update: "list_all P al \<Longrightarrow> P (k, v) \<Longrightarrow> list_all P (AList.update k v al)"
  by (induction al) auto

subsection \<open>What a handler can store\<close>

lemma increment_votes_frame:
  "increment_votes sl p = Some p1 \<Longrightarrow>
     votedIPs p1 = votedIPs p \<and> totalVotes p1 = totalVotes p
     \<and> length (options p1) = length (options p)"
  by (auto simp: increment_votes_def split: slot.splits if_splits)

lemma create_poll_result:
  "create_poll d pid q opts now ok = (r, d') \<Longrightarrow>
     d' = d \<or> (\<exists>p. d pid = None \<and> d' = d(pid \<mapsto> p) \<and> votedIPs p = [] \<and> totalVotes p = 0
                  \<and> list_all (\<lambda>opt. votes opt = 0) (options p))"
  unfolding create_poll_def Let_def
  by (simp split: if_splits) (force simp: list_all_iff)

lemma vote_oneshot_result:
  "vote_oneshot props d pid v ip ok = (r, d', es) \<Longrightarrow>
     (d' = d \<and> status r \<noteq> 200) \<or>
     (\<exists>p p'. d pid = Some p \<and> ip \<notin> set (votedIPs p) \<and> d' = d(pid \<mapsto> p') \<and> status r = 200
        \<and> votedIPs p' = votedIPs p @ [ip] \<and> totalVotes p' = totalVotes p + 1
        \<and> length (options p') = length (options p))"
  by (auto simp: vote_oneshot_def Let_def split: option.splits bool.splits if_splits
           dest!: increment_votes_frame)

lemma vote_oneshot_stored:
  assumes "vote_oneshot props d pid v ip ok = (r, d', es)" and "d' \<noteq> d"
  shows "\<exists>p p1. d pid = Some p
           \<and> increment_votes (options_get props (length (options p)) v) p = Some p1
           \<and> d' = d(pid \<mapsto> p1\<lparr>totalVotes := totalVotes p1 + 1, votedIPs := votedIPs p1 @ [ip]\<rparr>)"
  using assms
  by (auto simp: vote_oneshot_def Let_def split: option.splits bool.splits if_splits)

lemma vote_ratelimited_stored:
  assumes "vote_ratelimited props s pid v ip now ok = (r, s', es)" and "polls s' \<noteq> polls s"
  shows "\<exists>p p1. polls s pid = Some p
           \<and> increment_votes (options_get props (length (options p)) v) p = Some p1
           \<and> polls s' = (polls s)(pid \<mapsto> p1\<lparr>totalVotes := totalVotes p1 + 1\<rparr>)"
  using assms
  by (auto simp: vote_ratelimited_def Let_def split: option.splits bool.splits if_splits)

section \<open>The total and the sum of the option counts\<close>

text \<open>
  With a number as \<^verbatim>\<open>optionIndex\<close> the property read yields an option or
  \<^verbatim>\<open>undefined\<close>, so a vote that is stored adds one to one option and one to the total:
  creation and numeric votes keep \<^verbatim>\<open>totalVotes\<close> equal to the sum of the counts, on
  both servers.
\<close>

lemma option_sum_increment:
  assumes "i < length (options p)"
  shows "option_sum
           (p\<lparr>options := (options p)[i := (options p ! i)\<lparr>votes := votes (options p ! i) + 1\<rparr>]\<rparr>)
       = option_sum p + 1"
proof -
  let ?xs = "map votes (options p)"
  have "map votes ((options p)[i := (options p ! i)\<lparr>votes := votes (options p ! i) + 1\<rparr>])
      = ?xs[i := ?xs ! i + 1]"
    using assms by (simp add: map_update)
  moreover have "sum_list (?xs[i := ?xs ! i + 1]) = sum_list ?xs + 1"
    using assms by (simp add: sum_list_update)
  ultimately show ?thesis by (simp add: option_sum_def)
qed

lemma number_reads_element:
  "options_get props n (JNum r) = Element i \<Longrightarrow> i < n"
  "options_get props n (JNum r) \<noteq> Other"
  by (auto split: if_splits)

lemma increment_votes_number:
  assumes "increment_votes (options_get props (length (options p)) (JNum r)) p = Some p1"
  shows "option_sum p1 = option_sum p + 1"
proof (cases "options_get props (length (options p)) (JNum r)")
  case (Element i)
  have i: "i < length (options p)" by (rule number_reads_element(1)[OF Element])
  from assms[unfolded Element] i
  have "p1 = p\<lparr>options := (options p)[i := (options p ! i)\<lparr>votes := votes (options p ! i) + 1\<rparr>]\<rparr>"
    by (simp add: increment_votes_def)
  then show ?thesis using option_sum_increment[OF i] by simp
next
  case Other
  with number_reads_element(2) show ?thesis by blast
next
  case Missing
  from assms[unfolded Missing] show ?thesis by (simp add: increment_votes_def)
qed

lemma create_poll_total:
  "create_poll d pid q opts now ok = (r, d') \<Longrightarrow> d' k = Some p
     \<Longrightarrow> d k = Some p \<or> (totalVotes p = 0 \<and> option_sum p = 0)"
  by (auto simp: create_poll_def Let_def option_sum_def comp_def split: if_splits)

lemma numeric_vote_keeps_total:
  assumes inv: "\<And>k p. d k = Some p \<Longrightarrow> totalVotes p = option_sum p"
      and vote: "vote_oneshot props d pid (JNum r) ip ok = (rep, d', es)"
      and after: "d' k = Some p'"
  shows "totalVotes p' = option_sum p'"
proof (cases "d' = d")
  case True
  with inv after show ?thesis by simp
next
  case False
  from vote_oneshot_stored[OF vote False] obtain p p1 where
    p: "d pid = Some p"
    and p1: "increment_votes (options_get props (length (options p)) (JNum r)) p = Some p1"
    and d': "d' = d(pid \<mapsto> p1\<lparr>totalVotes := totalVotes p1 + 1, votedIPs := votedIPs p1 @ [ip]\<rparr>)"
    by blast
  have "totalVotes p1 = totalVotes p" using increment_votes_frame[OF p1] by simp
  with increment_votes_number[OF p1] inv[OF p] have "totalVotes p1 + 1 = option_sum p1" by simp
  then show ?thesis using d' after inv by (cases "k = pid") (auto simp: option_sum_def)
qed

lemma numeric_vote_keeps_total_rl:
  assumes inv: "\<And>k p. polls s k = Some p \<Longrightarrow> totalVotes p = option_sum p"
      and vote: "vote_ratelimited props s pid (JNum r) ip now ok = (rep, s', es)"
      and after: "polls s' k = Some p'"
  shows "totalVotes p' = option_sum p'"
proof (cases "polls s' = polls s")
  case True
  with inv after show ?thesis by simp
next
  case False
  from vote_ratelimited_stored[OF vote False] obtain p p1 where
    p: "polls s pid = Some p"
    and p1: "increment_votes (options_get props (length (options p)) (JNum r)) p = Some p1"
    and d': "polls s' = (polls s)(pid \<mapsto> p1\<lparr>totalVotes := totalVotes p1 + 1\<rparr>)"
    by blast
  have "totalVotes p1 = totalVotes p" using increment_votes_frame[OF p1] by simp
  with increment_votes_number[OF p1] inv[OF p] have "totalVotes p1 + 1 = option_sum p1" by simp
  then show ?thesis using d' after inv by (cases "k = pid") (auto simp: option_sum_def)
qed

lemma handle_numeric_keeps_total:
  assumes inv: "\<And>k p. d k = Some p \<Longrightarrow> totalVotes p = option_sum p"
      and num: "numeric req"
      and after: "handle props d req k = Some p'"
  shows "totalVotes p' = option_sum p'"
proof (cases req)
  case (CreatePoll pid q opts now ok)
  obtain r d' where c: "create_poll d pid q opts now ok = (r, d')"
    by (cases "create_poll d pid q opts now ok")
  from after CreatePoll c have "d' k = Some p'" by simp
  from create_poll_total[OF c this] inv show ?thesis by auto
next
  case (Vote pid v ip ok)
  with num obtain r where v: "v = JNum r" by (cases v) auto
  obtain rep d' es where c: "vote_oneshot props d pid (JNum r) ip ok = (rep, d', es)"
    by (cases "vote_oneshot props d pid (JNum r) ip ok") auto
  from after Vote v c have "d' k = Some p'" by simp
  from numeric_vote_keeps_total[OF inv c this] show ?thesis by simp
qed

lemma run_numeric_keeps_total:
  assumes "\<And>k p. d k = Some p \<Longrightarrow> totalVotes p = option_sum p"
      and "list_all numeric reqs"
      and "run props d reqs k = Some p'"
  shows "totalVotes p' = option_sum p'"
  using assms
proof (induction reqs arbitrary: d k p')
  case Nil
  then show ?case by (simp add: run_def)
next
  case (Cons req reqs)
  from Cons.prems(2) have num: "numeric req" and rest: "list_all numeric reqs" by simp_all
  have step: "\<And>k p. handle props d req k = Some p \<Longrightarrow> totalVotes p = option_sum p"
    using handle_numeric_keeps_total[of d req props] Cons.prems(1) num by blast
  from Cons.prems(3) have "run props (handle props d req) reqs k = Some p'"
    by (simp add: run_def)
  from Cons.IH[OF step rest this] show ?case .
qed

lemma handle_rl_numeric_keeps_total:
  assumes inv: "\<And>k p. polls s k = Some p \<Longrightarrow> totalVotes p = option_sum p"
      and num: "numeric_rl req"
      and after: "polls (handle_rl props s req) k = Some p'"
  shows "totalVotes p' = option_sum p'"
proof (cases req)
  case (CreatePollRL pid q opts now ok)
  obtain r d' where c: "create_poll (polls s) pid q opts now ok = (r, d')"
    by (cases "create_poll (polls s) pid q opts now ok")
  from after CreatePollRL c have "d' k = Some p'" by simp
  from create_poll_total[OF c this] inv show ?thesis by auto
next
  case (VoteRL pid v ip now ok)
  with num obtain r where v: "v = JNum r" by (cases v) auto
  obtain rep s' es where c: "vote_ratelimited props s pid (JNum r) ip now ok = (rep, s', es)"
    by (cases "vote_ratelimited props s pid (JNum r) ip now ok") auto
  from after VoteRL v c have "polls s' k = Some p'" by simp
  from numeric_vote_keeps_total_rl[OF inv c this] show ?thesis by simp
qed

lemma run_rl_numeric_keeps_total:
  assumes "\<And>k p. polls s k = Some p \<Longrightarrow> totalVotes p = option_sum p"
      and "list_all numeric_rl reqs"
      and "polls (run_rl props s reqs) k = Some p'"
  shows "totalVotes p' = option_sum p'"
  using assms
proof (induction reqs arbitrary: s k p')
  case Nil
  then show ?case by (simp add: run_rl_def)
next
  case (Cons req reqs)
  from Cons.prems(2) have num: "numeric_rl req" and rest: "list_all numeric_rl reqs"
    by simp_all
  have step: "\<And>k p. polls (handle_rl props s req) k = Some p \<Longrightarrow> totalVotes p = option_sum p"
    using handle_rl_numeric_keeps_total[of s req props] Cons.prems(1) num by blast
  from Cons.prems(3) have "polls (run_rl props (handle_rl props s req) reqs) k = Some p'"
    by (simp add: run_rl_def)
  from Cons.IH[OF step rest this] show ?case .
qed

text \<open>
  C1. The claim: in every poll reached by creating polls and voting, \<^verbatim>\<open>totalVotes\<close> is
  the sum of the option counts. The handlers break it for the body
  \<^verbatim>\<open>{"optionIndex": "length"}\<close>: \<^verbatim>\<open>"length" < 0\<close> and \<^verbatim>\<open>"length" >= 2\<close> are both false
  (the string converts to \<open>NaN\<close>), \<^verbatim>\<open>poll.options["length"]\<close> is the number 2, the
  assignment to its \<^verbatim>\<open>votes\<close> is dropped, and \<^verbatim>\<open>poll.totalVotes += 1\<close> is saved. After
  creating the poll and this one vote the stored total is 1 and the option counts sum to
  0, on the one-shot server and on the rate-limited server, and the vote was answered
  with 200.
\<close>

theorem length_key_raises_total_only:
  "map_option (\<lambda>p. (totalVotes p, option_sum p))
     (run props Map.empty
        [CreatePoll ''p'' ''Q'' [''A'', ''B''] 0 True, Vote ''p'' (JStr ''length'') ''x'' True]
        ''p'')
     = Some (1, 0)
   \<and> map_option (\<lambda>p. (totalVotes p, option_sum p))
       (polls (run_rl props \<lparr>polls = Map.empty, voteTimestamps = []\<rparr>
                 [CreatePollRL ''p'' ''Q'' [''A'', ''B''] 0 True,
                  VoteRL ''p'' (JStr ''length'') ''x'' 1000 True])
          ''p'')
     = Some (1, 0)
   \<and> status (fst (vote_oneshot props db_AB ''p'' (JStr ''length'') ''x'' True)) = 200
   \<and> status (fst (vote_ratelimited props server_AB ''p'' (JStr ''length'') ''x'' 1000 True)) = 200"
  by (simp add: handler_defs coercion_defs example_defs)

section \<open>A save that fails\<close>

text \<open>
  C3. The claim: when the store write fails, the vote answers with the storage error and
  the abuse state of the pair is unchanged. The one-shot server does so (its record,
  \<^verbatim>\<open>votedIPs\<close>, is part of the document that was not saved). The rate-limited server
  runs \<^verbatim>\<open>pollVotes.set(clientIP, now)\<close> before \<^verbatim>\<open>poll.save()\<close>: after a failed save at
  clock 1000 the timestamp is recorded, the stored poll is unchanged, and the same
  address voting again at clock 2000 is refused with 429 and 59 seconds to wait.
\<close>

theorem failed_save_keeps_timestamp:
  "vote_oneshot props db_AB ''p'' (JNum 0) ''x'' False = (ServerError, db_AB, [])
   \<and> vote_ratelimited props server_AB ''p'' (JNum 0) ''x'' 1000 False
       = (ServerError, server_AB\<lparr>voteTimestamps := [(''p'', [(''x'', 1000)])]\<rparr>, [])
   \<and> vote_ratelimited props (server_AB\<lparr>voteTimestamps := [(''p'', [(''x'', 1000)])]\<rparr>)
        ''p'' (JNum 0) ''x'' 2000 True
       = (RateLimited 59, server_AB\<lparr>voteTimestamps := [(''p'', [(''x'', 1000)])]\<rparr>, [])
   \<and> status ServerError = 500"
  by (simp add: handler_defs coercion_defs example_defs ceiling_seconds)

section \<open>A malformed option index\<close>

text \<open>
  C7. The claim: a vote on an existing poll whose \<^verbatim>\<open>optionIndex\<close> is missing or not a
  number is answered with 400. The range check compares with \<open>NaN\<close>, which is false both
  times, so the request passes it. For a missing index (\<^verbatim>\<open>undefined\<close>) and for the
  string \<^verbatim>\<open>abc\<close>, \<^verbatim>\<open>poll.options[optionIndex]\<close> is \<^verbatim>\<open>undefined\<close>, reading its \<^verbatim>\<open>votes\<close>
  throws, and the \<^verbatim>\<open>catch\<close> answers 500; the rate-limited server has recorded the
  timestamp by then. Whatever properties the array has and whether or not the save would
  succeed, the answer to a missing index from a new address is never 400.
\<close>

theorem missing_option_index_is_server_error:
  "vote_oneshot no_props db_AB ''p'' JUndefined ''x'' True = (ServerError, db_AB, [])
   \<and> vote_oneshot no_props db_AB ''p'' (JStr ''abc'') ''x'' True = (ServerError, db_AB, [])
   \<and> vote_ratelimited no_props server_AB ''p'' JUndefined ''x'' 1000 True
       = (ServerError, server_AB\<lparr>voteTimestamps := [(''p'', [(''x'', 1000)])]\<rparr>, [])
   \<and> vote_ratelimited no_props server_AB ''p'' (JStr ''abc'') ''x'' 1000 True
       = (ServerError, server_AB\<lparr>voteTimestamps := [(''p'', [(''x'', 1000)])]\<rparr>, [])
   \<and> status ServerError = 500
   \<and> status (fst (vote_oneshot props db_AB ''p'' JUndefined ''x'' ok)) \<noteq> 400
   \<and> status (fst (vote_ratelimited props server_AB ''p'' JUndefined ''x'' now ok)) \<noteq> 400"
  by (simp add: handler_defs coercion_defs example_defs)

section \<open>Range check\<close>

text \<open>
  C6. For an existing poll and an integer \<^verbatim>\<open>optionIndex\<close> below \<open>0\<close> or at least the
  number of options, both servers answer \<^verbatim>\<open>Invalid option\<close> (HTTP 400), emit nothing
  and leave the whole state as it was.
\<close>

theorem out_of_range_index_is_invalid_option:
  assumes "polls s pid = Some p" and "i < 0 \<or> int (length (options p)) \<le> i"
  shows "vote_oneshot props (polls s) pid (JNum (of_int i)) ip ok = (InvalidOption, polls s, [])
       \<and> vote_ratelimited props s pid (JNum (of_int i)) ip now ok = (InvalidOption, s, [])
       \<and> status InvalidOption = 400"
  using assms number_out_of_range[OF assms(2)]
  by (simp add: vote_oneshot_def vote_ratelimited_def)

theorem out_of_range_index_is_invalid_option_witness:
  "polls server_AB ''p'' = Some poll_AB
   \<and> length (options poll_AB) = 2
   \<and> vote_oneshot no_props db_AB ''p'' (JNum (- 1)) ''x'' True = (InvalidOption, db_AB, [])
   \<and> vote_ratelimited no_props server_AB ''p'' (JNum (- 1)) ''x'' 1000 True
       = (InvalidOption, server_AB, [])
   \<and> vote_oneshot no_props db_AB ''p'' (JNum 2) ''x'' True = (InvalidOption, db_AB, [])
   \<and> vote_ratelimited no_props server_AB ''p'' (JNum 2) ''x'' 1000 True
       = (InvalidOption, server_AB, [])"
proof -
  have p: "polls server_AB ''p'' = Some poll_AB"
    by (simp add: example_defs)
  have n: "length (options poll_AB) = 2"
    by (simp add: example_defs)
  have lo: "(- 1 :: int) < 0 \<or> int (length (options poll_AB)) \<le> - 1"
    by simp
  have hi: "(2 :: int) < 0 \<or> int (length (options poll_AB)) \<le> 2"
    by (simp add: n)
  have d: "polls server_AB = db_AB"
    by (simp add: example_defs)
  show ?thesis
    using p n
      out_of_range_index_is_invalid_option[OF p lo, of no_props "''x''" True 1000]
      out_of_range_index_is_invalid_option[OF p hi, of no_props "''x''" True 1000]
    by (simp add: d)
qed

section \<open>Failed votes\<close>

text \<open>
  C8. A vote that does not answer 200 (poll not found, invalid option, already voted,
  rate limited, or an exception such as a rejected save) emits no \<^verbatim>\<open>voteUpdate\<close> and
  leaves every stored poll as it was. A rejection by the abuse check (403 on the
  one-shot server, 429 on the rate-limited one) leaves the whole state unchanged. An
  event is emitted only when the save succeeded, and it carries the options and the
  total of the poll that was stored.
\<close>

theorem failed_vote_changes_nothing:
  assumes "vote_oneshot props d pid v ip ok = (r, d', es)"
      and "vote_ratelimited props s pid2 v2 ip2 now ok2 = (r2, s2, es2)"
  shows "(status r \<noteq> 200 \<longrightarrow> es = [] \<and> d' = d)
       \<and> (status r2 \<noteq> 200 \<longrightarrow> es2 = [] \<and> polls s2 = polls s)
       \<and> (status r = 403 \<longrightarrow> d' = d \<and> es = [])
       \<and> (status r2 = 429 \<longrightarrow> s2 = s \<and> es2 = [])
       \<and> (es \<noteq> [] \<longrightarrow> ok \<and> status r = 200
              \<and> (\<exists>p'. d' pid = Some p' \<and> es = [(pid, options p', totalVotes p')]))
       \<and> (es2 \<noteq> [] \<longrightarrow> ok2 \<and> status r2 = 200
              \<and> (\<exists>p'. polls s2 pid2 = Some p' \<and> es2 = [(pid2, options p', totalVotes p')]))"
proof -
  have one: "(status r \<noteq> 200 \<longrightarrow> es = [] \<and> d' = d) \<and> (status r = 403 \<longrightarrow> d' = d \<and> es = [])
      \<and> (es \<noteq> [] \<longrightarrow> ok \<and> status r = 200
              \<and> (\<exists>p'. d' pid = Some p' \<and> es = [(pid, options p', totalVotes p')]))"
    using assms(1)
    by (auto simp: vote_oneshot_def Let_def split: option.splits bool.splits if_splits)
  have two: "(status r2 \<noteq> 200 \<longrightarrow> es2 = [] \<and> polls s2 = polls s)
      \<and> (es2 \<noteq> [] \<longrightarrow> ok2 \<and> status r2 = 200
              \<and> (\<exists>p'. polls s2 pid2 = Some p' \<and> es2 = [(pid2, options p', totalVotes p')]))"
    using assms(2)
    by (auto simp: vote_ratelimited_def Let_def split: option.splits bool.splits if_splits)
  have three: "status r2 = 429 \<longrightarrow> s2 = s \<and> es2 = []"
    using assms(2) rejected_has_map[of "voteTimestamps s" pid2 ip2 now]
    by (auto simp: vote_ratelimited_def Let_def split: option.splits bool.splits if_splits)
  from one two three show ?thesis by blast
qed

theorem failed_vote_changes_nothing_witness:
  "vote_oneshot no_props db_AB ''q'' (JNum 0) ''x'' True = (NotFound, db_AB, [])
   \<and> status NotFound \<noteq> 200
   \<and> vote_ratelimited no_props (server_AB\<lparr>voteTimestamps := [(''p'', [(''x'', 1000)])]\<rparr>)
        ''p'' (JNum 0) ''x'' 2000 True
       = (RateLimited 59, server_AB\<lparr>voteTimestamps := [(''p'', [(''x'', 1000)])]\<rparr>, [])
   \<and> status (RateLimited 59) = 429"
proof -
  have one: "vote_oneshot no_props db_AB ''q'' (JNum 0) ''x'' True = (NotFound, db_AB, [])"
    by (simp add: handler_defs coercion_defs example_defs)
  have two: "vote_ratelimited no_props (server_AB\<lparr>voteTimestamps := [(''p'', [(''x'', 1000)])]\<rparr>)
        ''p'' (JNum 0) ''x'' 2000 True
       = (RateLimited 59, server_AB\<lparr>voteTimestamps := [(''p'', [(''x'', 1000)])]\<rparr>, [])"
    by (simp add: handler_defs coercion_defs example_defs ceiling_seconds)
  show ?thesis
    using failed_vote_changes_nothing[OF one two] one two by simp
qed

section \<open>The one-shot ledger\<close>

lemma handle_keeps_ledger:
  assumes inv: "\<And>k p. d k = Some p \<Longrightarrow> length (votedIPs p) = totalVotes p \<and> distinct (votedIPs p)"
      and after: "handle props d req k = Some p"
  shows "length (votedIPs p) = totalVotes p \<and> distinct (votedIPs p)"
proof (cases req)
  case (CreatePoll pid q opts now ok)
  obtain r d' where c: "create_poll d pid q opts now ok = (r, d')"
    by (cases "create_poll d pid q opts now ok")
  from create_poll_result[OF c] after CreatePoll c inv show ?thesis
    by (auto split: if_splits)
next
  case (Vote pid v ip ok)
  obtain r d' es where c: "vote_oneshot props d pid v ip ok = (r, d', es)"
    by (cases "vote_oneshot props d pid v ip ok") auto
  from vote_oneshot_result[OF c] after Vote c inv show ?thesis
    by (auto split: if_splits)
qed

lemma run_keeps_ledger:
  assumes "\<And>k p. d k = Some p \<Longrightarrow> length (votedIPs p) = totalVotes p \<and> distinct (votedIPs p)"
      and "run props d reqs k = Some p"
  shows "length (votedIPs p) = totalVotes p \<and> distinct (votedIPs p)"
  using assms
proof (induction reqs arbitrary: d k p)
  case Nil
  then show ?case by (simp add: run_def)
next
  case (Cons req reqs)
  have step: "\<And>k p. handle props d req k = Some p
                \<Longrightarrow> length (votedIPs p) = totalVotes p \<and> distinct (votedIPs p)"
    using handle_keeps_ledger[of d props req] Cons.prems(1) by blast
  from Cons.prems(2) have "run props (handle props d req) reqs k = Some p"
    by (simp add: run_def)
  from Cons.IH[OF step this] show ?case .
qed

text \<open>
  C10. On the one-shot server, every poll reached from the empty database by create and
  vote requests has as many entries in \<^verbatim>\<open>votedIPs\<close> as \<^verbatim>\<open>totalVotes\<close> says, and no
  address twice. A vote answered with 200 comes from an address that was not in the
  list, appends exactly that address and adds one to the total; a vote from an address
  in the list is not answered with 200 and changes nothing.
\<close>

theorem voted_ips_match_total:
  assumes "run props Map.empty reqs pid = Some p"
  shows "length (votedIPs p) = totalVotes p \<and> distinct (votedIPs p)
       \<and> (status (fst (vote_oneshot props (run props Map.empty reqs) pid v ip ok)) = 200
            \<longrightarrow> ip \<notin> set (votedIPs p)
              \<and> map_option votedIPs
                  (fst (snd (vote_oneshot props (run props Map.empty reqs) pid v ip ok)) pid)
                  = Some (votedIPs p @ [ip])
              \<and> map_option totalVotes
                  (fst (snd (vote_oneshot props (run props Map.empty reqs) pid v ip ok)) pid)
                  = Some (totalVotes p + 1))
       \<and> (ip \<in> set (votedIPs p)
            \<longrightarrow> status (fst (vote_oneshot props (run props Map.empty reqs) pid v ip ok)) \<noteq> 200
              \<and> fst (snd (vote_oneshot props (run props Map.empty reqs) pid v ip ok))
                  = run props Map.empty reqs)"
proof -
  have inv: "length (votedIPs p) = totalVotes p \<and> distinct (votedIPs p)"
    using run_keeps_ledger[of Map.empty props reqs pid p] assms by simp
  obtain r d' es where c: "vote_oneshot props (run props Map.empty reqs) pid v ip ok = (r, d', es)"
    by (cases "vote_oneshot props (run props Map.empty reqs) pid v ip ok") auto
  from vote_oneshot_result[OF c] assms inv c show ?thesis
    by auto
qed

theorem voted_ips_match_total_witness:
  "run no_props Map.empty
     [CreatePoll ''p'' ''Q'' [''A'', ''B''] 0 True, Vote ''p'' (JNum 0) ''x'' True] ''p''
     = Some poll_A1
   \<and> length (votedIPs poll_A1) = totalVotes poll_A1
   \<and> distinct (votedIPs poll_A1)
   \<and> totalVotes poll_A1 = 1"
proof -
  have r: "run no_props Map.empty
     [CreatePoll ''p'' ''Q'' [''A'', ''B''] 0 True, Vote ''p'' (JNum 0) ''x'' True] ''p''
     = Some poll_A1"
    by (simp add: handler_defs coercion_defs example_defs)
  show ?thesis
    using voted_ips_match_total[OF r, of "JNum 1" "''y''" True] r
    by (simp add: poll_A1_def)
qed

section \<open>One vote per address on the one-shot server\<close>

lemma handle_keeps_voter:
  assumes "d pid = Some p" and "ip \<in> set (votedIPs p)"
  shows "\<exists>p'. handle props d req pid = Some p' \<and> ip \<in> set (votedIPs p')
            \<and> length (options p') = length (options p)"
proof (cases req)
  case (CreatePoll k q opts now ok)
  obtain r d' where c: "create_poll d k q opts now ok = (r, d')"
    by (cases "create_poll d k q opts now ok")
  from create_poll_result[OF c] assms CreatePoll c show ?thesis
    by (auto split: if_splits)
next
  case (Vote k v ip' ok)
  obtain r d' es where c: "vote_oneshot props d k v ip' ok = (r, d', es)"
    by (cases "vote_oneshot props d k v ip' ok") auto
  from vote_oneshot_result[OF c] assms Vote c show ?thesis
    by (auto split: if_splits)
qed

lemma run_keeps_voter:
  assumes "d pid = Some p" and "ip \<in> set (votedIPs p)"
  shows "\<exists>p'. run props d reqs pid = Some p' \<and> ip \<in> set (votedIPs p')
            \<and> length (options p') = length (options p)"
  using assms
proof (induction reqs arbitrary: d p)
  case Nil
  then show ?case by (simp add: run_def)
next
  case (Cons req reqs)
  from handle_keeps_voter[where d = d and pid = pid, OF Cons.prems, of props req] obtain p1 where
    s: "handle props d req pid = Some p1" "ip \<in> set (votedIPs p1)"
       "length (options p1) = length (options p)"
    by blast
  from Cons.IH[where d = "handle props d req", OF s(1) s(2)] s(3) show ?case
    by (simp add: run_def)
qed

text \<open>
  C4, as the claim states it: after an admitted vote, every later vote of the same
  address on the same poll is refused with \<^verbatim>\<open>already voted\<close> (403). The handler runs
  the range check before \<^verbatim>\<open>votedIPs.includes\<close>: after the address \<^verbatim>\<open>x\<close> voted for
  option 0 of a poll with two options, its vote for option 5 is refused with
  \<^verbatim>\<open>Invalid option\<close> (400), not with 403.
\<close>

theorem second_vote_out_of_range_is_400:
  "vote_oneshot no_props db_AB ''p'' (JNum 0) ''x'' True
     = (VoteRecorded (options poll_A1) 1, db_A1, [(''p'', options poll_A1, 1)])
   \<and> vote_oneshot no_props db_A1 ''p'' (JNum 5) ''x'' True = (InvalidOption, db_A1, [])
   \<and> status InvalidOption = 400
   \<and> status AlreadyVoted = 403"
  by (simp add: handler_defs coercion_defs example_defs)

text \<open>
  C4, amended. On the one-shot server, after a vote of an address on a poll was answered
  with 200, and after any further requests, every vote of that address on that poll is
  refused, changes nothing and emits nothing. The answer follows the range check, which
  runs first: \<^verbatim>\<open>Invalid option\<close> (400) when the check refuses the option index,
  \<^verbatim>\<open>already voted\<close> (403) when the index passes it, and 500 when the index cannot be
  converted for the comparison. The address never gets a second vote admitted.
\<close>

theorem one_shot_never_twice:
  assumes "vote_oneshot props d pid v ip ok = (VoteRecorded os n, d1, es)"
  shows "vote_oneshot props (run props d1 reqs) pid v' ip ok'
           = (case range_check v' (length os) of
                None \<Rightarrow> ServerError
              | Some True \<Rightarrow> InvalidOption
              | Some False \<Rightarrow> AlreadyVoted,
              run props d1 reqs, [])"
proof -
  from assms obtain p1 where p1: "d1 pid = Some p1" "ip \<in> set (votedIPs p1)" "options p1 = os"
    by (auto simp: vote_oneshot_def Let_def split: option.splits bool.splits if_splits)
  from run_keeps_voter[where d = d1 and pid = pid, OF p1(1) p1(2), of props reqs] obtain p' where
    "run props d1 reqs pid = Some p'" "ip \<in> set (votedIPs p')"
    "length (options p') = length os"
    using p1(3) by auto
  then show ?thesis by (simp add: vote_oneshot_def split: option.splits bool.splits)
qed

theorem one_shot_never_twice_witness:
  "vote_oneshot no_props db_AB ''p'' (JNum 0) ''x'' True
     = (VoteRecorded (options poll_A1) 1, db_A1, [(''p'', options poll_A1, 1)])
   \<and> vote_oneshot no_props (run no_props db_A1 [Vote ''p'' (JNum 1) ''y'' True]) ''p'' (JNum 1)
        ''x'' True
       = (AlreadyVoted, run no_props db_A1 [Vote ''p'' (JNum 1) ''y'' True], [])
   \<and> vote_oneshot no_props (run no_props db_A1 [Vote ''p'' (JNum 1) ''y'' True]) ''p'' (JNum 2)
        ''x'' True
       = (InvalidOption, run no_props db_A1 [Vote ''p'' (JNum 1) ''y'' True], [])
   \<and> vote_oneshot no_props (run no_props db_A1 [Vote ''p'' (JNum 1) ''y'' True]) ''p''
        (JComposite None) ''x'' True
       = (ServerError, run no_props db_A1 [Vote ''p'' (JNum 1) ''y'' True], [])"
proof -
  have first: "vote_oneshot no_props db_AB ''p'' (JNum 0) ''x'' True
     = (VoteRecorded (options poll_A1) 1, db_A1, [(''p'', options poll_A1, 1)])"
    by (simp add: handler_defs coercion_defs example_defs)
  have n: "length (options poll_A1) = 2"
    by (simp add: poll_A1_def)
  show ?thesis
    using first
      one_shot_never_twice[OF first, of "[Vote ''p'' (JNum 1) ''y'' True]" "JNum 1" True]
      one_shot_never_twice[OF first, of "[Vote ''p'' (JNum 1) ''y'' True]" "JNum 2" True]
      one_shot_never_twice[OF first, of "[Vote ''p'' (JNum 1) ''y'' True]" "JComposite None" True]
    by (simp add: n range_check_def js_lt_zero_def js_ge_length_def)
qed

section \<open>The rate-limit window\<close>

text \<open>
  The check in terms of the stored timestamp. The window is 60 seconds (60000 ms). For a
  pair whose stored timestamp is not \<open>0\<close>: when \<open>now\<close> minus the timestamp is below the
  window the check refuses, and \<^verbatim>\<open>remainingTime\<close> is the rest of the window divided by
  1000 and rounded up to whole seconds, which is positive; otherwise the check passes.
  It passes when the address has no timestamp for the poll, and when the poll has no map
  at all. For an existing poll and an option index that passed the range check, the
  handler answers 429 with \<^verbatim>\<open>remainingTime\<close> \<open>r\<close> exactly when the check refuses with
  \<open>r\<close>.
\<close>

lemma check_on_stored_timestamp:
  "(map_of (poll_votes ts pid) ip = Some lastVoteTime \<and> lastVoteTime \<noteq> 0 \<longrightarrow>
      (now - lastVoteTime < RATE_LIMIT_WINDOW \<longrightarrow>
         check ts pid ip now
           = Some \<lceil>(of_int (RATE_LIMIT_WINDOW - (now - lastVoteTime)) :: rat) / 1000\<rceil>
         \<and> 0 < \<lceil>(of_int (RATE_LIMIT_WINDOW - (now - lastVoteTime)) :: rat) / 1000\<rceil>)
      \<and> (RATE_LIMIT_WINDOW \<le> now - lastVoteTime \<longrightarrow> check ts pid ip now = None))
   \<and> (map_of (poll_votes ts pid) ip = None \<longrightarrow> check ts pid ip now = None)
   \<and> (map_of ts pid = None \<longrightarrow> check ts pid ip now = None)
   \<and> RATE_LIMIT_WINDOW = 60 * 1000
   \<and> (polls s pid = Some p \<and> range_check v (length (options p)) = Some False \<longrightarrow>
        (fst (vote_ratelimited props s pid v ip now ok) = RateLimited r
           \<longleftrightarrow> check (voteTimestamps s) pid ip now = Some r))"
proof -
  have pos: "now - lastVoteTime < RATE_LIMIT_WINDOW \<Longrightarrow>
      0 < \<lceil>(of_int (RATE_LIMIT_WINDOW - (now - lastVoteTime)) :: rat) / 1000\<rceil>"
    by (simp add: ceiling_seconds RATE_LIMIT_WINDOW_def)
  have known: "map_of (poll_votes ts pid) ip = Some lastVoteTime \<and> lastVoteTime \<noteq> 0 \<longrightarrow>
      (now - lastVoteTime < RATE_LIMIT_WINDOW \<longrightarrow>
         check ts pid ip now
           = Some \<lceil>(of_int (RATE_LIMIT_WINDOW - (now - lastVoteTime)) :: rat) / 1000\<rceil>
         \<and> 0 < \<lceil>(of_int (RATE_LIMIT_WINDOW - (now - lastVoteTime)) :: rat) / 1000\<rceil>)
      \<and> (RATE_LIMIT_WINDOW \<le> now - lastVoteTime \<longrightarrow> check ts pid ip now = None)"
    using pos by (simp add: check_def ensure_poll_lookup rate_limit_def)
  have absent: "map_of (poll_votes ts pid) ip = None \<longrightarrow> check ts pid ip now = None"
    by (simp add: check_def ensure_poll_lookup rate_limit_def)
  have unknown: "map_of ts pid = None \<longrightarrow> check ts pid ip now = None"
    unfolding check_def ensure_poll_lookup
    by (simp add: rate_limit_def poll_votes_def)
  have window: "RATE_LIMIT_WINDOW = 60 * 1000"
    by (simp add: RATE_LIMIT_WINDOW_def)
  have reply: "polls s pid = Some p \<and> range_check v (length (options p)) = Some False \<longrightarrow>
        (fst (vote_ratelimited props s pid v ip now ok) = RateLimited r
           \<longleftrightarrow> check (voteTimestamps s) pid ip now = Some r)"
    by (auto simp: vote_ratelimited_def check_def Let_def split: option.splits)
  from known absent unknown window reply show ?thesis by blast
qed

text \<open>
  Every timestamp is a clock value that some vote read. When no vote read the clock
  value \<open>0\<close>, no stored timestamp is \<open>0\<close>, and the check passes exactly when the pair
  has no stored timestamp or the stored one is at least a window old.
\<close>

lemma poll_votes_nonzero:
  assumes "timestamps_nonzero ts"
  shows "list_all (\<lambda>(ip, timestamp). timestamp \<noteq> 0) (poll_votes ts pid)"
proof (cases "map_of ts pid")
  case None
  then show ?thesis by (simp add: poll_votes_def)
next
  case (Some ipMap)
  then have "(pid, ipMap) \<in> set ts" by (rule map_of_SomeD)
  with assms have "list_all (\<lambda>(ip, timestamp). timestamp \<noteq> 0) ipMap"
    by (auto simp: timestamps_nonzero_def list_all_iff)
  with Some show ?thesis by (simp add: poll_votes_def)
qed

lemma vote_keeps_nonzero:
  assumes "timestamps_nonzero (voteTimestamps s)" and "now \<noteq> 0"
  shows "timestamps_nonzero (voteTimestamps (fst (snd (vote_ratelimited props s pid v ip now ok))))"
proof -
  let ?ts = "voteTimestamps s"
  have e: "timestamps_nonzero (ensure_poll ?ts pid)"
    using assms(1)
    by (simp add: timestamps_nonzero_def ensure_poll_def list_all_update)
  have pv: "list_all (\<lambda>(ip, timestamp). timestamp \<noteq> 0) (poll_votes (ensure_poll ?ts pid) pid)"
    by (rule poll_votes_nonzero[OF e])
  have inner: "list_all (\<lambda>(ip, timestamp). timestamp \<noteq> 0)
                 (AList.update ip now (poll_votes (ensure_poll ?ts pid) pid))"
    using pv assms(2) by (simp add: list_all_update)
  have u: "timestamps_nonzero
             (AList.update pid (AList.update ip now (poll_votes (ensure_poll ?ts pid) pid))
                (ensure_poll ?ts pid))"
    using e inner by (simp add: timestamps_nonzero_def list_all_update)
  show ?thesis
    using assms(1) e u
    by (auto simp: vote_ratelimited_def Let_def split: option.splits bool.splits)
qed

lemma run_rl_nonzero:
  "timestamps_nonzero (voteTimestamps s) \<Longrightarrow> list_all clock_nonzero reqs
     \<Longrightarrow> timestamps_nonzero (voteTimestamps (run_rl props s reqs))"
proof (induction reqs arbitrary: s)
  case Nil
  then show ?case by (simp add: run_rl_def)
next
  case (Cons req reqs)
  have "timestamps_nonzero (voteTimestamps (handle_rl props s req))"
    using Cons.prems vote_keeps_nonzero[of s] by (cases req) simp_all
  from Cons.IH[OF this] Cons.prems(2) show ?case by (simp add: run_rl_def)
qed

lemma check_without_zero:
  assumes "timestamps_nonzero ts"
  shows "check ts pid ip now
       = (case map_of (poll_votes ts pid) ip of
            None \<Rightarrow> None
          | Some lastVoteTime \<Rightarrow>
              if now - lastVoteTime < RATE_LIMIT_WINDOW
              then Some \<lceil>(of_int (RATE_LIMIT_WINDOW - (now - lastVoteTime)) :: rat) / 1000\<rceil>
              else None)"
proof -
  have "lastVoteTime \<noteq> 0" if "map_of (poll_votes ts pid) ip = Some lastVoteTime" for lastVoteTime
    using poll_votes_nonzero[OF assms, of pid] map_of_SomeD[OF that]
    by (auto simp: list_all_iff)
  then show ?thesis
    by (auto simp: check_def ensure_poll_lookup rate_limit_def split: option.splits)
qed

text \<open>
  C5. The claim: the check refuses a pair exactly while the time since its last admitted
  vote is below the window, and a pair with no admitted vote, or with one at least a
  window old, is let through. The rate-limited handler stores the clock value of every
  vote that passed the check, before the statements that can fail, so the stored
  timestamp is not the one of the last admitted vote. Two runs on the poll with the
  options \<^verbatim>\<open>A\<close> and \<^verbatim>\<open>B\<close>:

  The address \<^verbatim>\<open>x\<close> votes at clock 1000 and is admitted (200); it votes again at clock
  61000, a full window later, and the save fails (500, one vote counted); at clock 62000,
  which is 61000 ms after its last admitted vote, it is refused with 429 and 59 seconds
  to wait.

  The address \<^verbatim>\<open>y\<close>, with no vote admitted, sends a request without \<^verbatim>\<open>optionIndex\<close> at
  clock 1000 (500); its vote for option 0 at clock 2000 is refused with 429.
\<close>

theorem failed_vote_restarts_window:
  "vote_ratelimited props server_AB ''p'' (JNum 0) ''x'' 1000 True
     = (VoteRecordedPoll ''p'' ''Q'' (options poll_A1) 1, server_A1 1000,
        [(''p'', options poll_A1, 1)])
   \<and> vote_ratelimited props (server_A1 1000) ''p'' (JNum 0) ''x'' 61000 False
     = (ServerError, server_A1 61000, [])
   \<and> RATE_LIMIT_WINDOW \<le> 62000 - 1000
   \<and> vote_ratelimited props (server_A1 61000) ''p'' (JNum 0) ''x'' 62000 True
     = (RateLimited 59, server_A1 61000, [])
   \<and> vote_ratelimited no_props server_AB ''p'' JUndefined ''y'' 1000 True
     = (ServerError, server_AB\<lparr>voteTimestamps := [(''p'', [(''y'', 1000)])]\<rparr>, [])
   \<and> vote_ratelimited no_props (server_AB\<lparr>voteTimestamps := [(''p'', [(''y'', 1000)])]\<rparr>)
        ''p'' (JNum 0) ''y'' 2000 True
     = (RateLimited 59, server_AB\<lparr>voteTimestamps := [(''p'', [(''y'', 1000)])]\<rparr>, [])"
  by (simp add: handler_defs coercion_defs example_defs ceiling_seconds)

section \<open>The sweep\<close>

lemma map_of_filter_distinct:
  "distinct (map fst m) \<Longrightarrow>
   map_of (filter P m) k
     = (case map_of m k of None \<Rightarrow> None | Some v \<Rightarrow> if P (k, v) then Some v else None)"
proof (induction m)
  case Nil
  then show ?case by simp
next
  case (Cons a m)
  obtain k' v' where a: "a = (k', v')" by (cases a)
  from Cons.prems a have notin: "k' \<notin> fst ` set m" and d: "distinct (map fst m)" by auto
  from notin have none: "map_of m k' = None" by (simp add: map_of_eq_None_iff)
  show ?case using Cons.IH[OF d] a none by (auto split: option.splits)
qed

lemma poll_votes_cleanup:
  "distinct (map fst ts) \<Longrightarrow>
   poll_votes (cleanup now ts) pid
     = filter (\<lambda>(ip, timestamp). \<not> now - timestamp > RATE_LIMIT_WINDOW * 2) (poll_votes ts pid)"
proof (induction ts)
  case Nil
  then show ?case by (simp add: cleanup_def poll_votes_def)
next
  case (Cons a ts)
  obtain k m where a: "a = (k, m)" by (cases a)
  from Cons.prems a have notin: "k \<notin> fst ` set ts" and d: "distinct (map fst ts)" by auto
  have none: "map_of ts k = None" using notin by (simp add: map_of_eq_None_iff)
  have none': "map_of (cleanup now ts) k = None"
    using notin by (force simp: map_of_eq_None_iff cleanup_def)
  from Cons.IH[OF d] have ih: "poll_votes (cleanup now ts) pid
     = filter (\<lambda>(ip, timestamp). \<not> now - timestamp > RATE_LIMIT_WINDOW * 2) (poll_votes ts pid)" .
  show ?case
  proof (cases "pid = k")
    case True
    then show ?thesis using a none none'
      by (auto simp: poll_votes_def cleanup_def)
  next
    case False
    have "poll_votes (cleanup now (a # ts)) pid = poll_votes (cleanup now ts) pid"
      using False a by (simp add: poll_votes_def cleanup_def)
    moreover have "poll_votes (a # ts) pid = poll_votes ts pid"
      using False a by (simp add: poll_votes_def)
    ultimately show ?thesis using ih by simp
  qed
qed

lemma rate_limit_filter:
  assumes "distinct (map fst m)" and "now \<le> t"
  shows "rate_limit (filter (\<lambda>(ip, timestamp). \<not> now - timestamp > RATE_LIMIT_WINDOW * 2) m) ip t
       = rate_limit m ip t"
  using assms(2)
  by (auto simp: rate_limit_def map_of_filter_distinct[OF assms(1)] RATE_LIMIT_WINDOW_def
           split: option.splits)

lemma well_formed_poll_votes: "well_formed ts \<Longrightarrow> distinct (map fst (poll_votes ts pid))"
  by (auto simp: well_formed_def poll_votes_def list_all_iff split: option.splits
           dest!: map_of_SomeD)

text \<open>The handler and the sweep keep the timestamp maps well formed.\<close>

lemma vote_keeps_well_formed:
  assumes "well_formed (voteTimestamps s)"
  shows "well_formed (voteTimestamps (fst (snd (vote_ratelimited props s pid v ip now ok))))"
proof -
  let ?ts = "voteTimestamps s"
  have e: "well_formed (ensure_poll ?ts pid)"
    using assms update_entries[of pid "[]" ?ts]
    by (auto simp: well_formed_def ensure_poll_def distinct_update list_all_iff)
  have inner: "distinct (map fst (AList.update ip now (poll_votes (ensure_poll ?ts pid) pid)))"
    using well_formed_poll_votes[OF e] by (simp add: distinct_update)
  have u: "well_formed (AList.update pid (AList.update ip now (poll_votes (ensure_poll ?ts pid) pid))
                          (ensure_poll ?ts pid))"
    using e inner
      update_entries[of pid "AList.update ip now (poll_votes (ensure_poll ?ts pid) pid)"
        "ensure_poll ?ts pid"]
    by (auto simp: well_formed_def distinct_update list_all_iff)
  show ?thesis
    using assms e u
    by (auto simp: vote_ratelimited_def Let_def split: option.splits bool.splits)
qed

lemma cleanup_keeps_well_formed:
  "well_formed ts \<Longrightarrow> well_formed (cleanup now ts)"
  by (auto simp: well_formed_def cleanup_def list_all_iff distinct_map_filter comp_def
                 case_prod_unfold
           intro!: distinct_map_filter)

lemma run_rl_well_formed:
  "well_formed (voteTimestamps s) \<Longrightarrow> well_formed (voteTimestamps (run_rl props s reqs))"
proof (induction reqs arbitrary: s)
  case Nil
  then show ?case by (simp add: run_rl_def)
next
  case (Cons req reqs)
  have "well_formed (voteTimestamps (handle_rl props s req))"
    using Cons.prems vote_keeps_well_formed[of s] by (cases req) simp_all
  from Cons.IH[OF this] show ?case by (simp add: run_rl_def)
qed

text \<open>
  C9. On the rate-limited server, let the sweep run at clock \<open>now\<close> on well-formed
  timestamp maps: it deletes the entries that are more than two windows old (and the
  maps left empty). For every poll id, every address and every clock value from \<open>now\<close>
  on, the check decides on the swept maps what it decides on the original ones, and the
  vote handler gives the same answer. An entry that the sweep deletes already lets every
  such vote pass, as a missing entry does.
\<close>

theorem sweep_keeps_check_results:
  assumes "well_formed ts" and "now \<le> t"
  shows "check (cleanup now ts) pid ip t = check ts pid ip t
       \<and> (map_of (poll_votes ts pid) ip = Some lastVoteTime
            \<and> now - lastVoteTime > RATE_LIMIT_WINDOW * 2
            \<longrightarrow> check ts pid ip t = None \<and> map_of (poll_votes (cleanup now ts) pid) ip = None)
       \<and> fst (vote_ratelimited props (s\<lparr>voteTimestamps := cleanup now ts\<rparr>) pid v ip t ok)
           = fst (vote_ratelimited props (s\<lparr>voteTimestamps := ts\<rparr>) pid v ip t ok)"
proof -
  have d: "distinct (map fst ts)" using assms(1) by (simp add: well_formed_def)
  have eq: "check (cleanup now ts) pid ip t = check ts pid ip t"
    unfolding check_def ensure_poll_lookup poll_votes_cleanup[OF d]
    by (rule rate_limit_filter[OF well_formed_poll_votes[OF assms(1)] assms(2)])
  have old: "map_of (poll_votes ts pid) ip = Some lastVoteTime
            \<and> now - lastVoteTime > RATE_LIMIT_WINDOW * 2
            \<longrightarrow> check ts pid ip t = None \<and> map_of (poll_votes (cleanup now ts) pid) ip = None"
    using assms(2)
    by (auto simp: check_def ensure_poll_lookup rate_limit_def RATE_LIMIT_WINDOW_def
                   poll_votes_cleanup[OF d]
                   map_of_filter_distinct[OF well_formed_poll_votes[OF assms(1)]])
  have reply: "fst (vote_ratelimited props (s\<lparr>voteTimestamps := cleanup now ts\<rparr>) pid v ip t ok)
           = fst (vote_ratelimited props (s\<lparr>voteTimestamps := ts\<rparr>) pid v ip t ok)"
    using eq
    by (auto simp: vote_ratelimited_def check_def Let_def split: option.splits bool.splits)
  from eq old reply show ?thesis by blast
qed

theorem sweep_keeps_check_results_witness:
  "well_formed [(''p'', [(''x'', 1000), (''y'', 200000)]), (''q'', [(''x'', 5)])]
   \<and> cleanup 200000 [(''p'', [(''x'', 1000), (''y'', 200000)]), (''q'', [(''x'', 5)])]
       = [(''p'', [(''y'', 200000)])]
   \<and> check [(''p'', [(''y'', 200000)])] ''p'' ''x'' 200001 = None
   \<and> check [(''p'', [(''x'', 1000), (''y'', 200000)]), (''q'', [(''x'', 5)])] ''p'' ''x'' 200001
       = None
   \<and> check [(''p'', [(''y'', 200000)])] ''p'' ''y'' 200001 = Some 60
   \<and> check [(''p'', [(''x'', 1000), (''y'', 200000)]), (''q'', [(''x'', 5)])] ''p'' ''y'' 200001
       = Some 60"
proof -
  have wf: "well_formed [(''p'', [(''x'', 1000), (''y'', 200000)]), (''q'', [(''x'', 5)])]"
    by (simp add: well_formed_def)
  have le: "(200000 :: int) \<le> 200001"
    by simp
  have swept: "cleanup 200000 [(''p'', [(''x'', 1000), (''y'', 200000)]), (''q'', [(''x'', 5)])]
       = [(''p'', [(''y'', 200000)])]"
    by (simp add: cleanup_def RATE_LIMIT_WINDOW_def)
  have x: "check [(''p'', [(''y'', 200000)])] ''p'' ''x'' 200001 = None"
    by (simp add: handler_defs)
  have y: "check [(''p'', [(''y'', 200000)])] ''p'' ''y'' 200001 = Some 60"
    by (simp add: handler_defs ceiling_eq_iff)
  show ?thesis
    using wf swept x y
      sweep_keeps_check_results[OF wf le, of "''p''" "''x''"]
      sweep_keeps_check_results[OF wf le, of "''p''" "''y''"]
    by simp
qed

end
